theory Spec2Isabelle
  imports Main
begin

section \<open>Data model of the socket coordinator\<close>

text \<open>
  The module of \<open>setupSockets\<close> keeps four module-level containers (\<open>roomModerators\<close>,
  \<open>socketUserInfo\<close>, \<open>meetingIdMap\<close>, \<open>messageBuffer\<close>) and relies on the transport
  library for the membership of rooms. Every handler is modelled as a function from the
  state before to the state after, together with the list of effects it performs, in
  program order. A handler runs from one \<open>await\<close> to the next without interruption; the
  socket handlers are modelled as one step each, the flusher also step by step.
\<close>

type_synonym socket_id = string
type_synonym room_id = string

text \<open>\<open>interface UserInfo\<close>; the optional \<open>image\<close> is an option.\<close>

record UserInfo =
  ui_id :: socket_id
  ui_name :: string
  ui_email :: string
  ui_image :: "string option"
  isModerator :: bool

text \<open>\<open>interface BufferedMessage\<close>; \<open>createdAt\<close> is an instant in milliseconds.\<close>

record BufferedMessage =
  bm_id :: string
  meetingCode :: string
  bm_senderId :: socket_id
  bm_senderName :: string
  bm_content :: string
  bm_createdAt :: nat

text \<open>A row handed to \<open>db.insert(message).values\<close> by \<open>flushMessages\<close>.\<close>

record message_row =
  row_id :: string
  meetingId :: string
  row_senderId :: socket_id
  row_senderName :: string
  row_content :: string
  row_createdAt :: nat

text \<open>
  The state: the four containers of the module, and the part of the transport the handlers
  read and write: the adapter's two indexes (\<open>rooms\<close>: the members of a room in insertion
  order, \<open>sids\<close>: the rooms of a socket in insertion order; a room with no member does not
  exist) and the connected sockets (\<open>io.sockets.sockets\<close>).
\<close>

record state =
  roomModerators :: "room_id \<rightharpoonup> socket_id"
  socketUserInfo :: "socket_id \<rightharpoonup> UserInfo"
  meetingIdMap :: "string \<rightharpoonup> string"
  messageBuffer :: "BufferedMessage list"
  adapter_rooms :: "room_id \<Rightarrow> socket_id list"
  adapter_sids :: "socket_id \<Rightarrow> room_id list"
  sockets :: "socket_id set"

definition init :: state where
  "init = \<lparr> roomModerators = Map.empty, socketUserInfo = Map.empty,
            meetingIdMap = Map.empty, messageBuffer = [],
            adapter_rooms = (\<lambda>_. []), adapter_sids = (\<lambda>_. []), sockets = {} \<rparr>"

subsection \<open>Payloads and emitted events\<close>

text \<open>
  Values of payload fields that the handlers pass through: a string, a \<open>UserInfo\<close> object
  (the \<open>userInfo\<close> the relay attaches) or \<open>undefined\<close>.
\<close>

datatype jsval = JStr string | JInfo UserInfo | JUndefined

text \<open>
  A signaling payload: the addressee \<open>to\<close> and its other own fields (\<open>body\<close>). The object spread
  \<open>{...payload, userInfo: v}\<close> keeps every field and sets (or overrides) \<open>userInfo\<close>.
\<close>

record sig_payload =
  to :: socket_id
  body :: "string \<rightharpoonup> jsval"

text \<open>The payload of \<open>user-message\<close>; a missing \<open>senderName\<close> is \<open>None\<close>.\<close>

record chat_msg =
  roomId :: room_id
  msg_text :: string
  senderName :: "string option"

text \<open>The payload of \<open>kick-user\<close>.\<close>

record kick_payload =
  kp_roomId :: room_id
  targetSocketId :: socket_id

text \<open>\<open>messageData\<close>, the body of the \<open>chat-message\<close> broadcast.\<close>

record messageData =
  userId :: socket_id
  md_senderName :: string
  md_text :: string
  time :: nat

datatype reason = kicked | disconnected

datatype out_event =
    ChatMessage messageData
  | PeerJoined socket_id UserInfo
  | ExistingParticipants "(socket_id \<times> UserInfo) list"
  | Offer sig_payload
  | Answer sig_payload
  | IceCandidate sig_payload
  | KickError string
  | Kicked string string
  | PeerLeft socket_id reason "UserInfo option"
  | ModeratorChanged socket_id string

text \<open>
  How an emission is addressed: \<open>socket.emit\<close> (one socket), \<open>io.to(room).emit\<close> (every
  member of the room) and \<open>socket.to(room).emit\<close> or \<open>io.to(room).except(id).emit\<close>
  (every member but one).
\<close>

datatype target = ToSocket socket_id | ToRoom room_id | ToRoomExcept room_id socket_id

datatype log_entry =
    LogFlushing nat
  | WarnDropped string
  | LogSaved nat
  | ErrorSaving
  | ErrorFetchingId string
  | ErrorCreator

datatype effect =
    Emit target out_event
  | SocketJoin socket_id room_id
  | SocketLeave socket_id room_id
  | DbInsert "message_row list"
  | Log log_entry

text \<open>
  Who receives an emission in a given state. The transport delivers by rooms:
  \<open>io.to(x)\<close> reaches the members of room \<open>x\<close>; \<open>socket.to(r)\<close> and
  \<open>io.to(r).except(id)\<close> reach the members of \<open>r\<close> that are not members of the room
  named by the id; and with \<open>connectionStateRecovery\<close> set, as \<open>setupSockets\<close> sets it,
  \<open>socket.emit\<close> is a broadcast to the room named by the socket's id.
\<close>

fun recipients :: "state \<Rightarrow> target \<Rightarrow> socket_id list" where
  "recipients st (ToSocket s) = adapter_rooms st s"
| "recipients st (ToRoom r) = adapter_rooms st r"
| "recipients st (ToRoomExcept r s) =
     filter (\<lambda>x. x \<notin> set (adapter_rooms st s)) (adapter_rooms st r)"

subsection \<open>The transport's membership operations\<close>

text \<open>
  \<open>socket.join(room)\<close>: the adapter adds the room to the socket's set and the socket to
  the room's set; adding a present element changes nothing.
\<close>

definition add_once :: "'a \<Rightarrow> 'a list \<Rightarrow> 'a list" where
  "add_once x xs = (if x \<in> set xs then xs else xs @ [x])"

definition socket_join :: "socket_id \<Rightarrow> room_id \<Rightarrow> state \<Rightarrow> state" where
  "socket_join sid r st =
     st\<lparr> adapter_rooms := (adapter_rooms st)(r := add_once sid (adapter_rooms st r)),
         adapter_sids := (adapter_sids st)(sid := add_once r (adapter_sids st sid)) \<rparr>"

definition socket_leave :: "socket_id \<Rightarrow> room_id \<Rightarrow> state \<Rightarrow> state" where
  "socket_leave sid r st =
     st\<lparr> adapter_rooms := (adapter_rooms st)(r := filter (\<lambda>x. x \<noteq> sid) (adapter_rooms st r)),
         adapter_sids := (adapter_sids st)(sid := filter (\<lambda>x. x \<noteq> r) (adapter_sids st sid)) \<rparr>"

text \<open>On connection the transport registers the socket and joins it to its own room.\<close>

definition connect :: "socket_id \<Rightarrow> state \<Rightarrow> state" where
  "connect sid st = socket_join sid sid (st\<lparr> sockets := insert sid (sockets st) \<rparr>)"

text \<open>
  After the \<open>disconnecting\<close> handlers the transport removes the socket from every room
  and from the connected sockets.
\<close>

definition leave_all :: "socket_id \<Rightarrow> state \<Rightarrow> state" where
  "leave_all sid st =
     st\<lparr> adapter_rooms := (\<lambda>r. filter (\<lambda>x. x \<noteq> sid) (adapter_rooms st r)),
         adapter_sids := (adapter_sids st)(sid := []),
         sockets := sockets st - {sid} \<rparr>"

text \<open>\<open>x || d\<close> on a string that may be missing: the empty string is falsy.\<close>

definition or_default :: "string option \<Rightarrow> string \<Rightarrow> string" where
  "or_default x d = (case x of None \<Rightarrow> d | Some s \<Rightarrow> if s = [] then d else s)"

section \<open>The handlers\<close>

text \<open>
  The effects of a handler are its emissions, its calls of \<open>socket.join\<close> and
  \<open>socket.leave\<close>, the inserts into the database and the lines of \<open>console.warn\<close> and
  \<open>console.error\<close>, with the log lines of the flusher. The informational
  \<open>console.log\<close> lines of the socket handlers are left out.
\<close>

subsection \<open>user-message\<close>

text \<open>
  The two \<open>new Date()\<close> calls and the \<open>uuidv4()\<close> call are inputs: \<open>t1\<close> is the instant
  of the broadcast's \<open>time\<close>, \<open>t2\<close> the instant of \<open>createdAt\<close>. \<open>chat_data\<close> is the
  object \<open>messageData\<close>, \<open>buffered\<close> the object pushed on \<open>messageBuffer\<close>.
\<close>

definition chat_data :: "socket_id \<Rightarrow> chat_msg \<Rightarrow> nat \<Rightarrow> messageData" where
  "chat_data sid msg t1 =
     \<lparr> userId = sid,
       md_senderName = or_default (senderName msg) ''Anonymous'',
       md_text = msg_text msg,
       time = t1 \<rparr>"

definition buffered :: "socket_id \<Rightarrow> chat_msg \<Rightarrow> nat \<Rightarrow> string \<Rightarrow> BufferedMessage" where
  "buffered sid msg t2 uuid =
     \<lparr> bm_id = uuid,
       meetingCode = roomId msg,
       bm_senderId = sid,
       bm_senderName = or_default (senderName msg) ''Anonymous'',
       bm_content = msg_text msg,
       bm_createdAt = t2 \<rparr>"

definition user_message ::
  "socket_id \<Rightarrow> chat_msg \<Rightarrow> nat \<Rightarrow> nat \<Rightarrow> string \<Rightarrow> state \<Rightarrow> state \<times> effect list" where
  "user_message sid msg t1 t2 uuid st =
     (st\<lparr> messageBuffer := messageBuffer st @ [buffered sid msg t2 uuid] \<rparr>,
      [Emit (ToRoomExcept (roomId msg) sid) (ChatMessage (chat_data sid msg t1))])"

subsection \<open>offer, answer, ice-candidate\<close>

definition with_userInfo :: "sig_payload \<Rightarrow> UserInfo option \<Rightarrow> sig_payload" where
  "with_userInfo payload senderInfo =
     payload\<lparr> body := (body payload)(''userInfo'' \<mapsto>
        (case senderInfo of None \<Rightarrow> JUndefined | Some u \<Rightarrow> JInfo u)) \<rparr>"

definition offer_to_server :: "socket_id \<Rightarrow> sig_payload \<Rightarrow> state \<Rightarrow> state \<times> effect list" where
  "offer_to_server sid payload st =
     (let senderInfo = socketUserInfo st sid
      in (st, [Emit (ToRoom (to payload)) (Offer (with_userInfo payload senderInfo))]))"

definition answer_to_server :: "socket_id \<Rightarrow> sig_payload \<Rightarrow> state \<Rightarrow> state \<times> effect list" where
  "answer_to_server sid payload st =
     (let senderInfo = socketUserInfo st sid
      in (st, [Emit (ToRoom (to payload)) (Answer (with_userInfo payload senderInfo))]))"

definition ice_candidate_to_server ::
  "socket_id \<Rightarrow> sig_payload \<Rightarrow> state \<Rightarrow> state \<times> effect list" where
  "ice_candidate_to_server sid payload st =
     (st, [Emit (ToRoom (to payload)) (IceCandidate payload)])"

subsection \<open>kick-user\<close>

definition kick_user :: "socket_id \<Rightarrow> kick_payload \<Rightarrow> state \<Rightarrow> state \<times> effect list" where
  "kick_user sid payload st =
     (let room = kp_roomId payload;
          target = targetSocketId payload;
          kickerInfo = socketUserInfo st sid
      in if roomModerators st room \<noteq> Some sid then
           (st, [Emit (ToSocket sid) (KickError ''Only the moderator can kick users'')])
         else if target = sid then
           (st, [Emit (ToSocket sid) (KickError ''You cannot kick yourself'')])
         else if target \<in> sockets st then
           (let targetInfo = socketUserInfo st target;
                e1 = Emit (ToSocket target)
                       (Kicked ''You have been removed from the meeting by the moderator''
                          (or_default (map_option ui_name kickerInfo) ''Moderator''));
                st1 = socket_leave target room st;
                e2 = Emit (ToRoom room) (PeerLeft target kicked targetInfo);
                st2 = st1\<lparr> socketUserInfo := (socketUserInfo st1)(target := None) \<rparr>
            in (st2, [e1, SocketLeave target room, e2]))
         else (st, []))"

subsection \<open>The external collaborators\<close>

text \<open>
  The database, \<open>JSON.parse\<close> and \<open>String.prototype.toLowerCase\<close> are outside the
  module; the handlers take them as an environment. A query either throws or returns its
  rows; \<open>insert_messages\<close> is \<open>False\<close> where the insert throws.
\<close>

datatype 'a query = QueryError | Rows "'a list"

text \<open>
  An object \<open>JSON.parse\<close> returns for a \<open>join-room\<close> message: it has a string
  \<open>roomId\<close>; any other field it lacks is \<open>None\<close> (\<open>undefined\<close> in the source), and a
  field it has is a string.
\<close>

record join_payload =
  jp_roomId :: room_id
  userEmail :: "string option"
  userName :: "string option"
  userImage :: "string option"

text \<open>
  What \<open>JSON.parse\<close> does with a message: it throws a SyntaxError, or returns
  \<open>null\<close>, or returns an object as above. The other JSON values (numbers, strings,
  booleans, arrays, objects without a string \<open>roomId\<close>) are not modelled.
\<close>

datatype parsed = ParseThrows | ParsedNull | ParsedObject join_payload

record env =
  JSON_parse :: "string \<Rightarrow> parsed"
  toLowerCase :: "string \<Rightarrow> string"
  select_creatorEmail :: "string \<Rightarrow> string query"
  select_meeting_id :: "string \<Rightarrow> string query"
  insert_messages :: "message_row list \<Rightarrow> bool"

datatype js_error = SyntaxError | TypeError

definition getMeetingCreatorEmail :: "env \<Rightarrow> string \<Rightarrow> string option \<times> effect list" where
  "getMeetingCreatorEmail env code =
     (case select_creatorEmail env code of
        QueryError \<Rightarrow> (None, [Log ErrorCreator])
      | Rows [] \<Rightarrow> (None, [])
      | Rows (creatorEmail # _) \<Rightarrow> (Some creatorEmail, []))"

definition getMeetingId ::
  "env \<Rightarrow> string \<Rightarrow> state \<Rightarrow> string option \<times> state \<times> effect list" where
  "getMeetingId env code st =
     (case meetingIdMap st code of
        Some i \<Rightarrow> (Some i, st, [])
      | None \<Rightarrow>
          (case select_meeting_id env code of
             QueryError \<Rightarrow> (None, st, [Log (ErrorFetchingId code)])
           | Rows [] \<Rightarrow> (None, st, [])
           | Rows (i # _) \<Rightarrow> (Some i, st\<lparr> meetingIdMap := (meetingIdMap st)(code \<mapsto> i) \<rparr>, [])))"

subsection \<open>join-room\<close>

text \<open>
  \<open>creatorEmail !== null && userEmail !== "" &&
  creatorEmail.toLowerCase() === userEmail.toLowerCase()\<close>, evaluated left to right: with a
  creator known and \<open>userEmail\<close> undefined the second conjunct is true and the call of
  \<open>toLowerCase\<close> on \<open>undefined\<close> throws a TypeError.
\<close>

definition isCreator :: "env \<Rightarrow> string option \<Rightarrow> string option \<Rightarrow> js_error + bool" where
  "isCreator env creatorEmail email =
     (case creatorEmail of
        None \<Rightarrow> Inr False
      | Some c \<Rightarrow>
          (case email of
             None \<Rightarrow> Inl TypeError
           | Some u \<Rightarrow>
               if u = [] then Inr False else Inr (toLowerCase env c = toLowerCase env u)))"

definition unknown_user :: "socket_id \<Rightarrow> UserInfo" where
  "unknown_user s =
     \<lparr> ui_id = s, ui_name = ''Unknown'', ui_email = [], ui_image = None, isModerator = False \<rparr>"

text \<open>
  The handler returns the state, the effects up to its end or up to the exception, and the
  exception if it threw one (nothing in the handler catches it). Reading \<open>payload.roomId\<close>
  of \<open>null\<close> throws a TypeError. The handler has three awaits (the lookup of the creator,
  \<open>socket.join\<close>, \<open>fetchSockets\<close>); \<open>join_room\<close> is its run with no other handler
  scheduled at them.
\<close>

definition join_room ::
  "env \<Rightarrow> socket_id \<Rightarrow> string \<Rightarrow> state \<Rightarrow> state \<times> effect list \<times> js_error option" where
  "join_room env sid msg st =
     (case JSON_parse env msg of
        ParseThrows \<Rightarrow> (st, [], Some SyntaxError)
      | ParsedNull \<Rightarrow> (st, [], Some TypeError)
      | ParsedObject payload \<Rightarrow>
          (let room = jp_roomId payload;
               email = userEmail payload;
               creator = getMeetingCreatorEmail env room
           in case isCreator env (fst creator) email of
                Inl e \<Rightarrow> (st, snd creator, Some e)
              | Inr is_creator \<Rightarrow>
                  (let userInfo = \<lparr> ui_id = sid,
                                    ui_name = or_default (userName payload) ''Anonymous'',
                                    ui_email = or_default email [],
                                    ui_image = (case userImage payload of
                                                  None \<Rightarrow> None
                                                | Some i \<Rightarrow> if i = [] then None else Some i),
                                    isModerator = is_creator \<rparr>;
                       st1 = (if is_creator
                              then st\<lparr> roomModerators := (roomModerators st)(room \<mapsto> sid) \<rparr>
                              else st);
                       st2 = st1\<lparr> socketUserInfo := (socketUserInfo st1)(sid \<mapsto> userInfo) \<rparr>;
                       st3 = socket_join sid room st2;
                       e1 = Emit (ToRoomExcept room sid) (PeerJoined sid userInfo);
                       existingPeers = adapter_rooms st3 room;
                       participantsInfo =
                         map (\<lambda>s. (s, case socketUserInfo st3 s of
                                         Some u \<Rightarrow> u
                                       | None \<Rightarrow> unknown_user s))
                             (filter (\<lambda>s. s \<noteq> sid) existingPeers);
                       e2 = Emit (ToSocket sid) (ExistingParticipants participantsInfo)
                   in (st3, snd creator @ [SocketJoin sid room, e1, e2], None))))"

subsection \<open>disconnecting\<close>

text \<open>
  The body of the \<open>if (roomModerators.get(roomId) === socket.id)\<close> block for one room.
  \<open>if (newModerator)\<close> tests a socket id for truthiness: the empty string is falsy.
\<close>

definition failover :: "socket_id \<Rightarrow> room_id \<Rightarrow> state \<Rightarrow> state \<times> effect list" where
  "failover sid room st =
     (let remainingSockets = adapter_rooms st room;
          otherSockets = filter (\<lambda>s. s \<noteq> sid) remainingSockets
      in case otherSockets of
           [] \<Rightarrow> (st, [])
         | newModerator # _ \<Rightarrow>
             if newModerator \<noteq> [] then
               (let st1 = st\<lparr> roomModerators := (roomModerators st)(room \<mapsto> newModerator) \<rparr>;
                    newModInfo = socketUserInfo st1 newModerator;
                    st2 = (case newModInfo of
                             None \<Rightarrow> st1
                           | Some u \<Rightarrow>
                               st1\<lparr> socketUserInfo :=
                                 (socketUserInfo st1)(newModerator \<mapsto> u\<lparr> isModerator := True \<rparr>) \<rparr>)
                in (st2, [Emit (ToRoom room)
                            (ModeratorChanged newModerator
                               (or_default (map_option ui_name newModInfo) ''Unknown''))]))
             else (st\<lparr> roomModerators := (roomModerators st)(room := None) \<rparr>, []))"

fun disconnecting_loop ::
  "socket_id \<Rightarrow> UserInfo option \<Rightarrow> room_id list \<Rightarrow> state \<Rightarrow> state \<times> effect list" where
  "disconnecting_loop sid userInfo [] st = (st, [])"
| "disconnecting_loop sid userInfo (room # rooms) st =
     (let (st1, tr1) = (if roomModerators st room = Some sid
                        then failover sid room st else (st, []));
          e = Emit (ToRoom room) (PeerLeft sid disconnected userInfo);
          (st2, tr2) = disconnecting_loop sid userInfo rooms st1
      in (st2, tr1 @ [e] @ tr2))"

definition disconnecting :: "socket_id \<Rightarrow> state \<Rightarrow> state \<times> effect list" where
  "disconnecting sid st =
     (let userInfo = socketUserInfo st sid;
          rooms = filter (\<lambda>r. r \<noteq> sid) (adapter_sids st sid);
          (st1, tr) = disconnecting_loop sid userInfo rooms st
      in (st1\<lparr> socketUserInfo := (socketUserInfo st1)(sid := None) \<rparr>, tr))"

text \<open>
  A disconnection as the transport runs it: the \<open>disconnecting\<close> handler sees the socket
  still in its rooms, then the socket leaves them all.
\<close>

definition disconnect :: "socket_id \<Rightarrow> state \<Rightarrow> state \<times> effect list" where
  "disconnect sid st = (let (st1, tr) = disconnecting sid st in (leave_all sid st1, tr))"

section \<open>The chat buffer and its flusher\<close>

definition to_row :: "BufferedMessage \<Rightarrow> string \<Rightarrow> message_row" where
  "to_row msg mid =
     \<lparr> row_id = bm_id msg, meetingId = mid, row_senderId = bm_senderId msg,
       row_senderName = bm_senderName msg, row_content = bm_content msg,
       row_createdAt = bm_createdAt msg \<rparr>"

text \<open>
  The \<open>for\<close> loop of \<open>flushMessages\<close> over \<open>messagesToSave\<close>, with \<open>validMessages\<close> as
  accumulator. \<open>if (meetingId)\<close> is a truthiness test: \<open>null\<close> and the empty string fail it.
\<close>

fun flush_loop ::
  "env \<Rightarrow> BufferedMessage list \<Rightarrow> state \<Rightarrow> message_row list
     \<Rightarrow> state \<times> message_row list \<times> effect list" where
  "flush_loop env [] st validMessages = (st, validMessages, [])"
| "flush_loop env (msg # msgs) st validMessages =
     (let (mid_opt, st1, tr1) = getMeetingId env (meetingCode msg) st
      in case mid_opt of
           None \<Rightarrow>
             (let (st2, v2, tr2) = flush_loop env msgs st1 validMessages
              in (st2, v2, tr1 @ [Log (WarnDropped (meetingCode msg))] @ tr2))
         | Some mid \<Rightarrow>
             if mid \<noteq> [] then
               (let (st2, v2, tr2) = flush_loop env msgs st1 (validMessages @ [to_row msg mid])
                in (st2, v2, tr1 @ tr2))
             else
               (let (st2, v2, tr2) = flush_loop env msgs st1 validMessages
                in (st2, v2, tr1 @ [Log (WarnDropped (meetingCode msg))] @ tr2)))"

text \<open>The insert of the valid rows and the handling of its outcome.\<close>

definition flush_insert :: "env \<Rightarrow> message_row list \<Rightarrow> effect list" where
  "flush_insert env validMessages =
     (if validMessages \<noteq> [] then
        [DbInsert validMessages,
         if insert_messages env validMessages
         then Log (LogSaved (length validMessages)) else Log ErrorSaving]
      else [])"

definition flushMessages :: "env \<Rightarrow> state \<Rightarrow> state \<times> effect list" where
  "flushMessages env st =
     (if messageBuffer st = [] then (st, [])
      else
        (let messagesToSave = messageBuffer st;
             st0 = st\<lparr> messageBuffer := [] \<rparr>;
             (st1, validMessages, tr) = flush_loop env messagesToSave st0 []
         in (st1, [Log (LogFlushing (length messagesToSave))] @ tr
                    @ flush_insert env validMessages)))"

subsection \<open>The flush between its awaits\<close>

text \<open>
  \<open>flushMessages\<close> is an async function: it runs to its first \<open>await\<close> (the buffer is
  copied and cleared by then), and other handlers run while it waits for
  \<open>getMeetingId\<close> and for the insert. A flush in flight holds its local variables:
  the rest of \<open>messagesToSave\<close> and \<open>validMessages\<close>. \<open>flush_start\<close> is the part before
  the first await, \<open>flush_resume\<close> one iteration of the loop, or the insert once the
  loop is over.
\<close>

record flight =
  fl_rest :: "BufferedMessage list"
  fl_valid :: "message_row list"

definition flush_start :: "state \<Rightarrow> state \<times> flight option \<times> effect list" where
  "flush_start st =
     (if messageBuffer st = [] then (st, None, [])
      else (st\<lparr> messageBuffer := [] \<rparr>,
            Some \<lparr> fl_rest = messageBuffer st, fl_valid = [] \<rparr>,
            [Log (LogFlushing (length (messageBuffer st)))]))"

definition flush_resume :: "env \<Rightarrow> flight \<Rightarrow> state \<Rightarrow> state \<times> flight option \<times> effect list" where
  "flush_resume env fl st =
     (case fl_rest fl of
        [] \<Rightarrow> (st, None, flush_insert env (fl_valid fl))
      | msg # msgs \<Rightarrow>
          (let (mid_opt, st1, tr1) = getMeetingId env (meetingCode msg) st
           in case mid_opt of
                None \<Rightarrow> (st1, Some \<lparr> fl_rest = msgs, fl_valid = fl_valid fl \<rparr>,
                         tr1 @ [Log (WarnDropped (meetingCode msg))])
              | Some mid \<Rightarrow>
                  if mid \<noteq> [] then
                    (st1, Some \<lparr> fl_rest = msgs, fl_valid = fl_valid fl @ [to_row msg mid] \<rparr>, tr1)
                  else
                    (st1, Some \<lparr> fl_rest = msgs, fl_valid = fl_valid fl \<rparr>,
                     tr1 @ [Log (WarnDropped (meetingCode msg))])))"

text \<open>
  A schedule: the flush in flight resumes after an await, or a \<open>user-message\<close> event is
  handled in between.
\<close>

datatype sched_step = Resume | Enqueue socket_id chat_msg nat nat string

fun run_sched ::
  "env \<Rightarrow> sched_step list \<Rightarrow> state \<Rightarrow> flight option \<Rightarrow> state \<times> flight option \<times> effect list" where
  "run_sched env [] st fl = (st, fl, [])"
| "run_sched env (Resume # ss) st None = run_sched env ss st None"
| "run_sched env (Resume # ss) st (Some f) =
     (let (st1, fl1, tr1) = flush_resume env f st;
          (st2, fl2, tr2) = run_sched env ss st1 fl1
      in (st2, fl2, tr1 @ tr2))"
| "run_sched env (Enqueue sid msg t1 t2 uuid # ss) st fl =
     (let (st1, tr1) = user_message sid msg t1 t2 uuid st;
          (st2, fl2, tr2) = run_sched env ss st1 fl
      in (st2, fl2, tr1 @ tr2))"

text \<open>The records the \<open>user-message\<close> events of a schedule push, in order.\<close>

fun enqueued :: "sched_step list \<Rightarrow> BufferedMessage list" where
  "enqueued [] = []"
| "enqueued (Resume # ss) = enqueued ss"
| "enqueued (Enqueue sid msg t1 t2 uuid # ss) = buffered sid msg t2 uuid # enqueued ss"

fun resumes :: "sched_step list \<Rightarrow> nat" where
  "resumes [] = 0"
| "resumes (Resume # ss) = Suc (resumes ss)"
| "resumes (Enqueue sid msg t1 t2 uuid # ss) = resumes ss"

section \<open>Observations on traces\<close>

text \<open>The batches handed to the database, in order.\<close>

fun db_inserts :: "effect list \<Rightarrow> message_row list list" where
  "db_inserts [] = []"
| "db_inserts (DbInsert rows # tr) = rows # db_inserts tr"
| "db_inserts (_ # tr) = db_inserts tr"

text \<open>The room codes of the warnings for dropped messages, in order.\<close>

fun warnings :: "effect list \<Rightarrow> string list" where
  "warnings [] = []"
| "warnings (Log (WarnDropped c) # tr) = c # warnings tr"
| "warnings (_ # tr) = warnings tr"

text \<open>The emissions of a trace, in order.\<close>

fun emissions :: "effect list \<Rightarrow> (target \<times> out_event) list" where
  "emissions [] = []"
| "emissions (Emit t e # tr) = (t, e) # emissions tr"
| "emissions (_ # tr) = emissions tr"

fun is_kicked_or_left :: "out_event \<Rightarrow> bool" where
  "is_kicked_or_left (Kicked _ _) = True"
| "is_kicked_or_left (PeerLeft _ _ _) = True"
| "is_kicked_or_left _ = False"




text \<open>
  What \<open>flushMessages\<close> makes of a room code in a given state: the id \<open>getMeetingId\<close>
  returns, if it passes the truthiness test.
\<close>

definition resolve :: "env \<Rightarrow> state \<Rightarrow> string \<Rightarrow> string option" where
  "resolve env st code =
     (case fst (getMeetingId env code st) of
        None \<Rightarrow> None
      | Some mid \<Rightarrow> if mid = [] then None else Some mid)"

text \<open>The rows of the messages whose code resolves, and the codes of the others.\<close>

fun resolved_rows :: "env \<Rightarrow> state \<Rightarrow> BufferedMessage list \<Rightarrow> message_row list" where
  "resolved_rows env st [] = []"
| "resolved_rows env st (m # ms) =
     (case resolve env st (meetingCode m) of
        None \<Rightarrow> resolved_rows env st ms
      | Some mid \<Rightarrow> to_row m mid # resolved_rows env st ms)"

fun unresolved_codes :: "env \<Rightarrow> state \<Rightarrow> BufferedMessage list \<Rightarrow> string list" where
  "unresolved_codes env st [] = []"
| "unresolved_codes env st (m # ms) =
     (case resolve env st (meetingCode m) of
        None \<Rightarrow> meetingCode m # unresolved_codes env st ms
      | Some mid \<Rightarrow> unresolved_codes env st ms)"

text \<open>A series of \<open>user-message\<close> events, handled one after the other.\<close>

record chat_event =
  ce_sid :: socket_id
  ce_msg :: chat_msg
  ce_t1 :: nat
  ce_t2 :: nat
  ce_uuid :: string

fun enqueue_all :: "chat_event list \<Rightarrow> state \<Rightarrow> state" where
  "enqueue_all [] st = st"
| "enqueue_all (e # es) st =
     enqueue_all es (fst (user_message (ce_sid e) (ce_msg e) (ce_t1 e) (ce_t2 e) (ce_uuid e) st))"

section \<open>Concrete scenarios\<close>

text \<open>
  The environment of the scenarios: room \<open>abc\<close> was created by \<open>a@X.com\<close> and has the
  durable id \<open>m1\<close>; no other room is known to the database. The parser accepts four
  message texts, which stand for the JSON texts of the payloads below, and one that stands
  for the text \<open>null\<close>, and rejects every other text. Lower-casing folds the ASCII
  letters, which are the only letters of the scenarios.
\<close>

definition lower_char :: "char \<Rightarrow> char" where
  "lower_char c =
     (case map_of (zip ''ABCDEFGHIJKLMNOPQRSTUVWXYZ'' ''abcdefghijklmnopqrstuvwxyz'') c of
        None \<Rightarrow> c
      | Some l \<Rightarrow> l)"

definition ascii_lower :: "string \<Rightarrow> string" where
  "ascii_lower s = map lower_char s"

definition payloadA :: join_payload where
  "payloadA = \<lparr> jp_roomId = ''abc'', userEmail = Some ''A@x.com'',
                userName = Some ''Ann'', userImage = None \<rparr>"

definition payloadB :: join_payload where
  "payloadB = \<lparr> jp_roomId = ''abc'', userEmail = Some ''b@x.com'',
                userName = Some ''Bob'', userImage = None \<rparr>"

text \<open>A payload for the existing room \<open>abc\<close> without the identity field.\<close>

definition payloadM :: join_payload where
  "payloadM = \<lparr> jp_roomId = ''abc'', userEmail = None, userName = None, userImage = None \<rparr>"

text \<open>A payload that names as its room the connection id \<open>s2\<close>.\<close>

definition payloadE :: join_payload where
  "payloadE = \<lparr> jp_roomId = ''s2'', userEmail = Some ''e@x.com'',
                userName = Some ''Eve'', userImage = None \<rparr>"

definition env0 :: env where
  "env0 = \<lparr> JSON_parse = (\<lambda>s. if s = ''A'' then ParsedObject payloadA
                               else if s = ''B'' then ParsedObject payloadB
                               else if s = ''M'' then ParsedObject payloadM
                               else if s = ''E'' then ParsedObject payloadE
                               else if s = ''null'' then ParsedNull else ParseThrows),
            toLowerCase = ascii_lower,
            select_creatorEmail = (\<lambda>c. if c = ''abc'' then Rows [''a@X.com''] else Rows []),
            select_meeting_id = (\<lambda>c. if c = ''abc'' then Rows [''m1''] else Rows []),
            insert_messages = (\<lambda>_. True) \<rparr>"

text \<open>Socket \<open>s1\<close> and socket \<open>s2\<close> are connected; \<open>s1\<close> has joined \<open>abc\<close> as its creator.\<close>

definition st_creator :: state where
  "st_creator = fst (join_room env0 ''s1'' ''A'' (connect ''s2'' (connect ''s1'' init)))"

text \<open>A chat message for room \<open>abc\<close> without a display name, and one for an unknown room.\<close>

definition chat1 :: chat_msg where
  "chat1 = \<lparr> roomId = ''abc'', msg_text = ''hello'', senderName = None \<rparr>"

definition chat2 :: chat_msg where
  "chat2 = \<lparr> roomId = ''nowhere'', msg_text = ''lost'', senderName = Some ''Bob'' \<rparr>"

definition chat3 :: chat_msg where
  "chat3 = \<lparr> roomId = ''abc'', msg_text = ''later'', senderName = Some ''Bob'' \<rparr>"

text \<open>
  A third connection \<open>s3\<close> has sent \<open>join-room\<close> with the connection id \<open>s2\<close> as room.
\<close>

definition st_eaves :: state where
  "st_eaves = fst (join_room env0 ''s3'' ''E'' (connect ''s3'' st_creator))"

text \<open>A signaling payload from \<open>s1\<close> to \<open>s2\<close> with one field of its own.\<close>

definition ice0 :: sig_payload where
  "ice0 = \<lparr> to = ''s2'', body = [''candidate'' \<mapsto> JStr ''c0''] \<rparr>"

text \<open>The same environment with an insert that fails.\<close>

definition env_fail :: env where
  "env_fail = env0\<lparr> insert_messages := (\<lambda>_. False) \<rparr>"

text \<open>
  Two messages are pending: one of \<open>s1\<close> for room \<open>abc\<close> and one of \<open>s2\<close> for a room
  the database does not know.
\<close>

definition st_chat :: state where
  "st_chat = fst (user_message ''s2'' chat2 7 8 ''u2''
                   (fst (user_message ''s1'' chat1 5 6 ''u1'' st_creator)))"

definition ev1 :: chat_event where
  "ev1 = \<lparr> ce_sid = ''s1'', ce_msg = chat1, ce_t1 = 5, ce_t2 = 6, ce_uuid = ''u1'' \<rparr>"

definition ev3 :: chat_event where
  "ev3 = \<lparr> ce_sid = ''s2'', ce_msg = chat3, ce_t1 = 9, ce_t2 = 10, ce_uuid = ''u3'' \<rparr>"

text \<open>A schedule in which a message arrives while the flush waits for its first lookup.\<close>

definition sched0 :: "sched_step list" where
  "sched0 = [Resume, Enqueue ''s2'' chat3 9 10 ''u3'', Resume, Resume]"

section \<open>Facts about the scenarios\<close>

lemmas fixture_defs =
  env0_def payloadA_def payloadB_def payloadM_def payloadE_def st_creator_def
  chat1_def chat2_def chat3_def

lemmas model_defs =
  init_def connect_def socket_join_def socket_leave_def leave_all_def add_once_def
  or_default_def join_room_def getMeetingCreatorEmail_def isCreator_def ascii_lower_def
  lower_char_def unknown_user_def disconnect_def disconnecting_def failover_def kick_user_def

lemma st_creator_moderator: "roomModerators st_creator ''abc'' = Some ''s1''"
  by (simp add: fixture_defs model_defs Let_def)

lemma st_creator_rooms:
  "adapter_rooms st_creator ''abc'' = [''s1'']"
  "adapter_rooms st_creator ''s2'' = [''s2'']"
  "adapter_rooms st_creator ''s1'' = [''s1'']"
  by (simp_all add: fixture_defs model_defs Let_def)

lemma st_creator_info:
  "socketUserInfo st_creator ''s1'' =
     Some \<lparr> ui_id = ''s1'', ui_name = ''Ann'', ui_email = ''A@x.com'',
            ui_image = None, isModerator = True \<rparr>"
  "socketUserInfo st_creator ''s2'' = None"
  by (simp_all add: fixture_defs model_defs Let_def)

lemma st_creator_idle:
  "messageBuffer st_creator = []"
  "meetingIdMap st_creator = Map.empty"
  by (simp_all add: fixture_defs model_defs Let_def)

lemma st_chat_pending:
  "messageBuffer st_chat =
     [\<lparr> bm_id = ''u1'', meetingCode = ''abc'', bm_senderId = ''s1'',
        bm_senderName = ''Anonymous'', bm_content = ''hello'', bm_createdAt = 6 \<rparr>,
      \<lparr> bm_id = ''u2'', meetingCode = ''nowhere'', bm_senderId = ''s2'',
        bm_senderName = ''Bob'', bm_content = ''lost'', bm_createdAt = 8 \<rparr>]"
  "meetingIdMap st_chat = Map.empty"
  by (simp_all add: st_chat_def user_message_def buffered_def chat1_def chat2_def
        or_default_def st_creator_idle)

lemma resolve_scenarios:
  "resolve env0 st_creator ''abc'' = Some ''m1''"
  "resolve env0 st_chat ''abc'' = Some ''m1''"
  "resolve env0 st_chat ''nowhere'' = None"
  "resolve env_fail st_chat ''abc'' = Some ''m1''"
  "resolve env_fail st_chat ''nowhere'' = None"
  by (simp_all add: resolve_def getMeetingId_def env0_def env_fail_def st_creator_idle st_chat_pending)

section \<open>The kick guard\<close>

text \<open>
  Claim C7. A \<open>kick-user\<close> event whose requester is not the moderator recorded for the
  room, or whose target is the requester, changes no part of the state (registry,
  membership, moderator tracker) and has exactly one effect: a \<open>kick-error\<close> sent to the
  requester. In particular no \<open>kicked\<close> and no \<open>peer-left\<close> event is emitted.
\<close>

theorem kick_rejected:
  assumes "roomModerators st (kp_roomId p) \<noteq> Some sid \<or> targetSocketId p = sid"
  shows "(\<exists>m. kick_user sid p st = (st, [Emit (ToSocket sid) (KickError m)]))
       \<and> list_all (\<lambda>(t, e). \<not> is_kicked_or_left e) (emissions (snd (kick_user sid p st)))"
  using assms by (auto simp: kick_user_def Let_def)

text \<open>
  The guard at work: \<open>s2\<close>, not the moderator of \<open>abc\<close>, asks to kick \<open>s1\<close>; and the
  moderator \<open>s1\<close> asks to kick itself.
\<close>

theorem kick_rejected_witness:
  "roomModerators st_creator ''abc'' = Some ''s1''
   \<and> kick_user ''s2'' \<lparr> kp_roomId = ''abc'', targetSocketId = ''s1'' \<rparr> st_creator
       = (st_creator, [Emit (ToSocket ''s2'') (KickError ''Only the moderator can kick users'')])
   \<and> kick_user ''s1'' \<lparr> kp_roomId = ''abc'', targetSocketId = ''s1'' \<rparr> st_creator
       = (st_creator, [Emit (ToSocket ''s1'') (KickError ''You cannot kick yourself'')])"
proof -
  let ?p = "\<lparr> kp_roomId = ''abc'', targetSocketId = ''s1'' \<rparr>"
  have h2: "roomModerators st_creator (kp_roomId ?p) \<noteq> Some ''s2'' \<or> targetSocketId ?p = ''s2''"
    by (simp add: st_creator_moderator)
  have h1: "roomModerators st_creator (kp_roomId ?p) \<noteq> Some ''s1'' \<or> targetSocketId ?p = ''s1''"
    by simp
  from kick_rejected[OF h2] obtain m where
    "kick_user ''s2'' ?p st_creator = (st_creator, [Emit (ToSocket ''s2'') (KickError m)])"
    by blast
  then have a: "kick_user ''s2'' ?p st_creator
       = (st_creator, [Emit (ToSocket ''s2'') (KickError ''Only the moderator can kick users'')])"
    by (simp add: kick_user_def st_creator_moderator Let_def)
  from kick_rejected[OF h1] obtain m' where
    "kick_user ''s1'' ?p st_creator = (st_creator, [Emit (ToSocket ''s1'') (KickError m')])"
    by blast
  then have b: "kick_user ''s1'' ?p st_creator
       = (st_creator, [Emit (ToSocket ''s1'') (KickError ''You cannot kick yourself'')])"
    by (simp add: kick_user_def st_creator_moderator Let_def)
  from a b show ?thesis by (simp add: st_creator_moderator)
qed

section \<open>Chat messages\<close>

text \<open>
  Claim C10. In every state, for every sender and every \<open>user-message\<close> payload, the
  handler emits \<open>chat-message\<close> once with \<open>socket.to(roomId)\<close>, the transport's
  broadcast to the room named in the payload that leaves out the sender, and appends one
  record to the pending buffer; nothing else of the state changes. No condition on the state
  is involved: the sender need not be a member of the room nor have an entry in the
  registry. The record carries the room code, the sender's connection id and the text; the
  display name is the same in the broadcast and in the record, and a missing name is
  \<open>Anonymous\<close> in both.
\<close>

theorem user_message_unconditional:
  "user_message sid msg t1 t2 uuid st =
     (st\<lparr> messageBuffer := messageBuffer st @ [buffered sid msg t2 uuid] \<rparr>,
      [Emit (ToRoomExcept (roomId msg) sid) (ChatMessage (chat_data sid msg t1))])
   \<and> meetingCode (buffered sid msg t2 uuid) = roomId msg
   \<and> bm_senderId (buffered sid msg t2 uuid) = sid
   \<and> bm_content (buffered sid msg t2 uuid) = msg_text msg
   \<and> userId (chat_data sid msg t1) = sid
   \<and> md_text (chat_data sid msg t1) = msg_text msg
   \<and> md_senderName (chat_data sid msg t1) = bm_senderName (buffered sid msg t2 uuid)
   \<and> md_senderName (chat_data sid (msg\<lparr> senderName := None \<rparr>) t1) = ''Anonymous''
   \<and> bm_senderName (buffered sid (msg\<lparr> senderName := None \<rparr>) t2 uuid) = ''Anonymous''
   \<and> bm_senderName (buffered sid (msg\<lparr> senderName := Some (c # cs) \<rparr>) t2 uuid) = c # cs"
  by (auto simp: user_message_def buffered_def chat_data_def or_default_def)

section \<open>The signaling relay\<close>

lemma st_eaves_rooms:
  "adapter_rooms st_eaves ''s2'' = [''s2'', ''s3'']"
  "socketUserInfo st_eaves ''s1'' =
     Some \<lparr> ui_id = ''s1'', ui_name = ''Ann'', ui_email = ''A@x.com'',
            ui_image = None, isModerator = True \<rparr>"
  by (simp_all add: st_eaves_def fixture_defs model_defs Let_def)

text \<open>
  Claim C3, as the code has it. The three relay handlers leave the state unchanged and emit
  once. For an offer and for an answer the payload goes out with every field kept and
  \<open>userInfo\<close> set to the sender's entry in the connection registry. For an ICE candidate
  the payload goes out as it came in: no sender identity is attached. Each emission is
  addressed with \<open>io.to\<close> to the room named by the payload's \<open>to\<close> and reaches every
  member of that room: a connection that has joined a room of that name receives it too.
\<close>

theorem signaling_relay:
  "offer_to_server sid p st =
     (st, [Emit (ToRoom (to p))
             (Offer (p\<lparr> body := (body p)(''userInfo'' \<mapsto>
                (case socketUserInfo st sid of None \<Rightarrow> JUndefined | Some u \<Rightarrow> JInfo u)) \<rparr>))])
   \<and> answer_to_server sid p st =
     (st, [Emit (ToRoom (to p))
             (Answer (p\<lparr> body := (body p)(''userInfo'' \<mapsto>
                (case socketUserInfo st sid of None \<Rightarrow> JUndefined | Some u \<Rightarrow> JInfo u)) \<rparr>))])
   \<and> ice_candidate_to_server sid p st = (st, [Emit (ToRoom (to p)) (IceCandidate p)])
   \<and> recipients st (ToRoom (to p)) = adapter_rooms st (to p)
   \<and> x \<in> set (recipients (socket_join x (to p) st) (ToRoom (to p)))"
  by (simp add: offer_to_server_def answer_to_server_def ice_candidate_to_server_def
        with_userInfo_def socket_join_def add_once_def)

text \<open>
  Against C3 as stated, on both counts. \<open>s1\<close> has an identity in the registry, and the ICE
  candidate it sends to \<open>s2\<close> goes out without it. And after \<open>s3\<close> has joined the room
  named \<open>s2\<close>, the offer of \<open>s1\<close> to \<open>s2\<close> is delivered to \<open>s2\<close> and to \<open>s3\<close>.
\<close>

theorem relay_not_as_claimed:
  "socketUserInfo st_creator ''s1'' =
     Some \<lparr> ui_id = ''s1'', ui_name = ''Ann'', ui_email = ''A@x.com'',
            ui_image = None, isModerator = True \<rparr>
   \<and> ice_candidate_to_server ''s1'' ice0 st_creator
       = (st_creator, [Emit (ToRoom ''s2'') (IceCandidate ice0)])
   \<and> body ice0 ''userInfo'' = None
   \<and> offer_to_server ''s1'' ice0 st_eaves =
       (st_eaves, [Emit (ToRoom ''s2'')
          (Offer \<lparr> to = ''s2'', body = [''candidate'' \<mapsto> JStr ''c0'', ''userInfo'' \<mapsto>
             JInfo \<lparr> ui_id = ''s1'', ui_name = ''Ann'', ui_email = ''A@x.com'',
                     ui_image = None, isModerator = True \<rparr>] \<rparr>)])
   \<and> recipients st_eaves (ToRoom ''s2'') = [''s2'', ''s3'']"
  by (simp add: st_creator_info st_eaves_rooms ice_candidate_to_server_def offer_to_server_def
        with_userInfo_def ice0_def)

section \<open>Joining a room\<close>

lemma join_B:
  "join_room env0 ''s2'' ''B'' st_creator =
     (fst (join_room env0 ''s2'' ''B'' st_creator),
      [SocketJoin ''s2'' ''abc'',
       Emit (ToRoomExcept ''abc'' ''s2'') (PeerJoined ''s2''
         \<lparr> ui_id = ''s2'', ui_name = ''Bob'', ui_email = ''b@x.com'',
           ui_image = None, isModerator = False \<rparr>),
       Emit (ToSocket ''s2'') (ExistingParticipants
         [(''s1'', \<lparr> ui_id = ''s1'', ui_name = ''Ann'', ui_email = ''A@x.com'',
                     ui_image = None, isModerator = True \<rparr>)])],
      None)"
  by (simp add: fixture_defs model_defs Let_def)

text \<open>
  Claim C2, as the code has it. On a \<open>join-room\<close> event that completes, the handler writes
  the joiner into the room's entry of the moderator tracker if and only if the joiner is
  verified as the room's creator (the creator's email is known, the payload's email is not
  empty and both agree after lower-casing), whether or not the room already has a
  moderator: a verified creator replaces the incumbent. For a joiner that is not verified
  the handler leaves the tracker as it was, so that a non-creator never becomes moderator
  by joining (and one that the tracker already names stays named). The moderator flag the
  handler writes into the joiner's registry entry is the outcome of the same check.
\<close>

theorem join_room_moderator:
  assumes "JSON_parse env msg = ParsedObject p"
    and "snd (snd (join_room env sid msg st)) = None"
  shows "roomModerators (fst (join_room env sid msg st)) =
           (if isCreator env (fst (getMeetingCreatorEmail env (jp_roomId p))) (userEmail p)
                 = Inr True
            then (roomModerators st)(jp_roomId p \<mapsto> sid) else roomModerators st)
       \<and> map_option isModerator (socketUserInfo (fst (join_room env sid msg st)) sid) =
           Some (isCreator env (fst (getMeetingCreatorEmail env (jp_roomId p))) (userEmail p)
                   = Inr True)"
  using assms
  by (auto simp: join_room_def Let_def socket_join_def split: sum.splits)

text \<open>
  Both branches: \<open>s2\<close> joins \<open>abc\<close> as \<open>b@x.com\<close> and the tracker is unchanged; \<open>s1\<close> joins
  \<open>abc\<close> as \<open>A@x.com\<close>, the creator up to case, and is recorded as its moderator.
\<close>

theorem join_room_moderator_witness:
  "JSON_parse env0 ''B'' = ParsedObject payloadB
   \<and> snd (snd (join_room env0 ''s2'' ''B'' st_creator)) = None
   \<and> isCreator env0 (fst (getMeetingCreatorEmail env0 ''abc'')) (Some ''b@x.com'') = Inr False
   \<and> roomModerators (fst (join_room env0 ''s2'' ''B'' st_creator)) = roomModerators st_creator
   \<and> JSON_parse env0 ''A'' = ParsedObject payloadA
   \<and> snd (snd (join_room env0 ''s1'' ''A'' (connect ''s1'' init))) = None
   \<and> isCreator env0 (fst (getMeetingCreatorEmail env0 ''abc'')) (Some ''A@x.com'') = Inr True
   \<and> roomModerators (fst (join_room env0 ''s1'' ''A'' (connect ''s1'' init))) = [''abc'' \<mapsto> ''s1'']"
proof -
  have b1: "JSON_parse env0 ''B'' = ParsedObject payloadB" by (simp add: env0_def)
  have b2: "snd (snd (join_room env0 ''s2'' ''B'' st_creator)) = None"
    by (subst join_B) simp
  have b3: "isCreator env0 (fst (getMeetingCreatorEmail env0 ''abc'')) (Some ''b@x.com'') = Inr False"
    by (simp add: fixture_defs model_defs)
  have a1: "JSON_parse env0 ''A'' = ParsedObject payloadA" by (simp add: env0_def)
  have a2: "snd (snd (join_room env0 ''s1'' ''A'' (connect ''s1'' init))) = None"
    by (simp add: fixture_defs model_defs Let_def)
  have a3: "isCreator env0 (fst (getMeetingCreatorEmail env0 ''abc'')) (Some ''A@x.com'') = Inr True"
    by (simp add: fixture_defs model_defs)
  have i: "roomModerators (connect ''s1'' init) = Map.empty"
    by (simp add: model_defs)
  from join_room_moderator[OF b1 b2] b3
  have b: "roomModerators (fst (join_room env0 ''s2'' ''B'' st_creator)) = roomModerators st_creator"
    by (simp add: payloadB_def)
  from join_room_moderator[OF a1 a2] a3 i
  have a: "roomModerators (fst (join_room env0 ''s1'' ''A'' (connect ''s1'' init)))
             = [''abc'' \<mapsto> ''s1'']"
    by (simp add: payloadA_def)
  from a b a1 a2 a3 b1 b2 b3 show ?thesis by simp
qed

text \<open>
  Against C2 as stated: room \<open>abc\<close> has the moderator \<open>s1\<close>; a second connection \<open>s2\<close> of
  the creator joins, and the tracker names \<open>s2\<close>.
\<close>

theorem creator_displaces_moderator:
  "roomModerators st_creator ''abc'' = Some ''s1''
   \<and> JSON_parse env0 ''A'' = ParsedObject payloadA
   \<and> isCreator env0 (fst (getMeetingCreatorEmail env0 (jp_roomId payloadA))) (userEmail payloadA)
       = Inr True
   \<and> snd (snd (join_room env0 ''s2'' ''A'' st_creator)) = None
   \<and> roomModerators (fst (join_room env0 ''s2'' ''A'' st_creator)) ''abc'' = Some ''s2''"
  by (simp add: fixture_defs model_defs Let_def)



section \<open>Malformed join-room messages\<close>

text \<open>
  With the creator of the room known, a payload without the identity field passes the test
  \<open>userEmail !== ""\<close>, and the handler throws a TypeError at \<open>userEmail.toLowerCase()\<close>
  before it has changed or emitted anything.
\<close>

lemma join_room_without_email:
  assumes "JSON_parse env msg = ParsedObject p"
    and "userEmail p = None"
    and "fst (getMeetingCreatorEmail env (jp_roomId p)) = Some c"
  shows "join_room env sid msg st = (st, [], Some TypeError)"
  using assms
  by (auto simp: join_room_def Let_def isCreator_def getMeetingCreatorEmail_def
      split: query.splits list.splits)

text \<open>
  Claim C4 asks that a malformed \<open>join-room\<close> payload is ignored and never makes the
  handler throw. The handler tests \<open>userEmail !== ""\<close> and falls back with
  \<open>userEmail || ""\<close>, but a missing \<open>userEmail\<close> is \<open>undefined\<close>, not the empty
  string: for the existing room \<open>abc\<close> the payload without the identity field makes the
  handler throw a TypeError, and nothing catches it. A message that is not valid JSON makes
  \<open>JSON.parse\<close>, the handler's first statement, throw a SyntaxError in the same way.
\<close>

theorem join_room_missing_identity_throws:
  "JSON_parse env0 ''M'' = ParsedObject payloadM
   \<and> userEmail payloadM = None
   \<and> fst (getMeetingCreatorEmail env0 (jp_roomId payloadM)) = Some ''a@X.com''
   \<and> join_room env0 ''s2'' ''M'' st_creator = (st_creator, [], Some TypeError)
   \<and> JSON_parse env0 ''{]'' = ParseThrows
   \<and> join_room env0 ''s2'' ''{]'' st_creator = (st_creator, [], Some SyntaxError)"
  by (simp add: env0_def payloadM_def join_room_def getMeetingCreatorEmail_def isCreator_def
        Let_def)

section \<open>The moderator tracker when a room empties\<close>

text \<open>
  Claim C1 asks that a room with no member has no entry in the moderator tracker, and that
  a recorded moderator is a member of its room. The \<open>disconnecting\<close> handler deletes the
  entry only in the \<open>else\<close> branch of \<open>if (newModerator)\<close>, inside
  \<open>if (otherSockets.length > 0)\<close>; when the moderator is the last member to leave, no
  branch touches the tracker. Here \<open>s1\<close>, moderator and only member of \<open>abc\<close>,
  disconnects: the room is empty and the tracker still names \<open>s1\<close>.
\<close>

theorem moderator_entry_outlives_room:
  "adapter_rooms st_creator ''abc'' = [''s1'']
   \<and> roomModerators st_creator ''abc'' = Some ''s1''
   \<and> adapter_rooms (fst (disconnect ''s1'' st_creator)) ''abc'' = []
   \<and> roomModerators (fst (disconnect ''s1'' st_creator)) ''abc'' = Some ''s1''"
  by (simp add: fixture_defs model_defs Let_def)

section \<open>The flusher\<close>

subsection \<open>The loop over the copied buffer\<close>

lemma getMeetingId_buffer:
  "messageBuffer (fst (snd (getMeetingId env c st))) = messageBuffer st"
  by (simp add: getMeetingId_def split: option.splits query.splits list.splits)

lemma getMeetingId_no_obs:
  "db_inserts (snd (snd (getMeetingId env c st))) = []"
  "warnings (snd (snd (getMeetingId env c st))) = []"
  "emissions (snd (snd (getMeetingId env c st))) = []"
  by (simp_all add: getMeetingId_def split: option.splits query.splits list.splits)

lemma getMeetingId_stable:
  "fst (getMeetingId env c' (fst (snd (getMeetingId env c st)))) = fst (getMeetingId env c' st)"
  by (simp add: getMeetingId_def split: option.splits query.splits list.splits)

lemma resolve_after_getMeetingId:
  "resolve env (fst (snd (getMeetingId env c st))) c' = resolve env st c'"
  by (simp add: resolve_def getMeetingId_stable)

lemma resolve_cong:
  "meetingIdMap st = meetingIdMap st' \<Longrightarrow> resolve env st c = resolve env st' c"
  by (simp add: resolve_def getMeetingId_def split: option.splits query.splits list.splits)

lemma resolved_rows_cong:
  "(\<And>c. resolve env st c = resolve env st' c) \<Longrightarrow> resolved_rows env st ms = resolved_rows env st' ms"
  by (induction ms) (auto split: option.splits)

lemma unresolved_codes_cong:
  "(\<And>c. resolve env st c = resolve env st' c) \<Longrightarrow> unresolved_codes env st ms = unresolved_codes env st' ms"
  by (induction ms) (auto split: option.splits)

lemma db_inserts_append: "db_inserts (xs @ ys) = db_inserts xs @ db_inserts ys"
  by (induction xs rule: db_inserts.induct) auto

lemma warnings_append: "warnings (xs @ ys) = warnings xs @ warnings ys"
  by (induction xs rule: warnings.induct) auto

lemma emissions_append: "emissions (xs @ ys) = emissions xs @ emissions ys"
  by (induction xs rule: emissions.induct) auto

lemma flush_loop_spec:
  "fst (snd (flush_loop env msgs st v)) = v @ resolved_rows env st msgs
   \<and> warnings (snd (snd (flush_loop env msgs st v))) = unresolved_codes env st msgs
   \<and> db_inserts (snd (snd (flush_loop env msgs st v))) = []
   \<and> emissions (snd (snd (flush_loop env msgs st v))) = []
   \<and> messageBuffer (fst (flush_loop env msgs st v)) = messageBuffer st
   \<and> (\<forall>c. resolve env (fst (flush_loop env msgs st v)) c = resolve env st c)"
proof (induction msgs arbitrary: st v)
  case Nil
  then show ?case by simp
next
  case (Cons m ms)
  obtain r st1 tr1 where g: "getMeetingId env (meetingCode m) st = (r, st1, tr1)"
    by (cases "getMeetingId env (meetingCode m) st") auto
  have st1: "st1 = fst (snd (getMeetingId env (meetingCode m) st))" using g by simp
  have res: "\<And>c. resolve env st1 c = resolve env st c"
    unfolding st1 by (rule resolve_after_getMeetingId)
  have buf: "messageBuffer st1 = messageBuffer st"
    unfolding st1 by (rule getMeetingId_buffer)
  have obs: "db_inserts tr1 = []" "warnings tr1 = []" "emissions tr1 = []"
    using getMeetingId_no_obs[of env "meetingCode m" st] g by simp_all
  have rr: "resolved_rows env st1 ms = resolved_rows env st ms"
    using res by (rule resolved_rows_cong)
  have uc: "unresolved_codes env st1 ms = unresolved_codes env st ms"
    using res by (rule unresolved_codes_cong)
  have rm: "resolve env st (meetingCode m) = (case r of None \<Rightarrow> None | Some mid \<Rightarrow> if mid = [] then None else Some mid)"
    using g by (simp add: resolve_def)
  show ?case
  proof (cases r)
    case None
    with g rm Cons.IH[of st1 v] rr uc res buf obs show ?thesis
      by (simp add: split_beta db_inserts_append warnings_append emissions_append)
  next
    case (Some mid)
    show ?thesis
    proof (cases "mid = []")
      case True
      with Some g rm Cons.IH[of st1 v] rr uc res buf obs show ?thesis
        by (simp add: split_beta db_inserts_append warnings_append emissions_append)
    next
      case False
      with Some g rm Cons.IH[of st1 "v @ [to_row m mid]"] rr uc res buf obs show ?thesis
        by (simp add: split_beta db_inserts_append warnings_append emissions_append)
    qed
  qed
qed


lemma resolve_clear_buffer: "resolve env (st\<lparr> messageBuffer := b \<rparr>) c = resolve env st c"
  by (rule resolve_cong) simp

lemma flush_insert_obs:
  "db_inserts (flush_insert env v) = (if v = [] then [] else [v])"
  "warnings (flush_insert env v) = []"
  "emissions (flush_insert env v) = []"
  by (simp_all add: flush_insert_def)

lemma flushMessages_spec:
  "messageBuffer (fst (flushMessages env st)) = []
   \<and> db_inserts (snd (flushMessages env st)) =
       (if resolved_rows env st (messageBuffer st) = [] then []
        else [resolved_rows env st (messageBuffer st)])
   \<and> warnings (snd (flushMessages env st)) = unresolved_codes env st (messageBuffer st)
   \<and> emissions (snd (flushMessages env st)) = []
   \<and> (\<forall>c. resolve env (fst (flushMessages env st)) c = resolve env st c)"
proof (cases "messageBuffer st = []")
  case True
  then show ?thesis by (simp add: flushMessages_def)
next
  case False
  let ?st0 = "st\<lparr> messageBuffer := [] \<rparr>"
  note L = flush_loop_spec[of env "messageBuffer st" ?st0 "[]"]
  have rr: "resolved_rows env ?st0 (messageBuffer st) = resolved_rows env st (messageBuffer st)"
    by (rule resolved_rows_cong) (rule resolve_clear_buffer)
  have uc: "unresolved_codes env ?st0 (messageBuffer st) = unresolved_codes env st (messageBuffer st)"
    by (rule unresolved_codes_cong) (rule resolve_clear_buffer)
  from False L rr uc show ?thesis
    by (simp add: flushMessages_def Let_def split_beta db_inserts_append warnings_append
          emissions_append flush_insert_obs resolve_clear_buffer)
qed

lemma flushMessages_error_logged:
  assumes "resolved_rows env st (messageBuffer st) \<noteq> []"
    and "\<not> insert_messages env (resolved_rows env st (messageBuffer st))"
  shows "Log ErrorSaving \<in> set (snd (flushMessages env st))"
proof -
  have ne: "messageBuffer st \<noteq> []" using assms(1) by auto
  let ?st0 = "st\<lparr> messageBuffer := [] \<rparr>"
  have rr: "resolved_rows env ?st0 (messageBuffer st) = resolved_rows env st (messageBuffer st)"
    by (rule resolved_rows_cong) (rule resolve_clear_buffer)
  have v: "fst (snd (flush_loop env (messageBuffer st) ?st0 [])) = resolved_rows env st (messageBuffer st)"
    using flush_loop_spec[of env "messageBuffer st" ?st0 "[]"] rr by simp
  show ?thesis using ne assms v
    by (simp add: flushMessages_def Let_def split_beta flush_insert_def)
qed

lemma flush_resume_buffer: "messageBuffer (fst (flush_resume env fl st)) = messageBuffer st"
proof (cases "fl_rest fl")
  case Nil
  then show ?thesis by (simp add: flush_resume_def)
next
  case (Cons m ms)
  with getMeetingId_buffer[of env "meetingCode m" st] show ?thesis
    by (simp add: flush_resume_def split_beta split: option.splits)
qed

subsection \<open>What a flush leaves behind\<close>

text \<open>
  Claim C8. Whatever the lookups and the insert do, the pending buffer is empty after a
  flush, and the flush never appends to it: no step of a flush in flight changes the buffer,
  and a second flush with nothing enqueued in between does nothing at all, so nothing is
  retried. A message whose room code does not resolve gets one warning and no row: the
  warnings are the unresolved codes, in order, and the rows handed to the database are those
  of the resolved messages, in at most one batch. When the insert of that batch fails, the
  failure is logged; the buffer is empty all the same.
\<close>

theorem flush_drops_everything:
  "messageBuffer (fst (flushMessages env st)) = []
   \<and> flushMessages env (fst (flushMessages env st)) = (fst (flushMessages env st), [])
   \<and> messageBuffer (fst (flush_resume env fl st)) = messageBuffer st
   \<and> warnings (snd (flushMessages env st)) = unresolved_codes env st (messageBuffer st)
   \<and> concat (db_inserts (snd (flushMessages env st))) = resolved_rows env st (messageBuffer st)
   \<and> length (db_inserts (snd (flushMessages env st))) \<le> 1
   \<and> (resolved_rows env st (messageBuffer st) \<noteq> []
        \<and> \<not> insert_messages env (resolved_rows env st (messageBuffer st))
       \<longrightarrow> Log ErrorSaving \<in> set (snd (flushMessages env st)))"
proof -
  note S = flushMessages_spec[of env st]
  have 1: "messageBuffer (fst (flushMessages env st)) = []" using S by simp
  have 2: "flushMessages env (fst (flushMessages env st)) = (fst (flushMessages env st), [])"
    using 1 by (simp add: flushMessages_def[of env "fst (flushMessages env st)"])
  have 3: "messageBuffer (fst (flush_resume env fl st)) = messageBuffer st"
    by (rule flush_resume_buffer)
  have 4: "warnings (snd (flushMessages env st)) = unresolved_codes env st (messageBuffer st)"
    using S by simp
  have 5: "concat (db_inserts (snd (flushMessages env st))) = resolved_rows env st (messageBuffer st)"
    using S by simp
  have 6: "length (db_inserts (snd (flushMessages env st))) \<le> 1"
    using S by simp
  from 1 2 3 4 5 6 flushMessages_error_logged[of env st] show ?thesis by blast
qed


text \<open>
  With the pending messages of the scenario and an insert that fails: the message for the
  unknown room gets its warning, the failure of the insert is logged, the buffer is empty.
\<close>

theorem flush_drops_everything_witness:
  "resolved_rows env_fail st_chat (messageBuffer st_chat) =
     [\<lparr> row_id = ''u1'', meetingId = ''m1'', row_senderId = ''s1'',
        row_senderName = ''Anonymous'', row_content = ''hello'', row_createdAt = 6 \<rparr>]
   \<and> insert_messages env_fail (resolved_rows env_fail st_chat (messageBuffer st_chat)) = False
   \<and> Log ErrorSaving \<in> set (snd (flushMessages env_fail st_chat))
   \<and> warnings (snd (flushMessages env_fail st_chat)) = [''nowhere'']
   \<and> messageBuffer (fst (flushMessages env_fail st_chat)) = []"
proof -
  have r: "resolved_rows env_fail st_chat (messageBuffer st_chat) =
     [\<lparr> row_id = ''u1'', meetingId = ''m1'', row_senderId = ''s1'',
        row_senderName = ''Anonymous'', row_content = ''hello'', row_createdAt = 6 \<rparr>]"
    by (simp add: st_chat_pending resolve_scenarios to_row_def)
  have u: "unresolved_codes env_fail st_chat (messageBuffer st_chat) = [''nowhere'']"
    by (simp add: st_chat_pending resolve_scenarios)
  have i: "insert_messages env_fail (resolved_rows env_fail st_chat (messageBuffer st_chat)) = False"
    by (simp add: env_fail_def)
  from flush_drops_everything[of env_fail st_chat "\<lparr> fl_rest = [], fl_valid = [] \<rparr>"] r u i
  show ?thesis by simp
qed

subsection \<open>Enqueue, then flush\<close>

lemma enqueue_all_buffer:
  "messageBuffer (enqueue_all evs st) =
     messageBuffer st @ map (\<lambda>e. buffered (ce_sid e) (ce_msg e) (ce_t2 e) (ce_uuid e)) evs
   \<and> meetingIdMap (enqueue_all evs st) = meetingIdMap st"
  by (induction evs arbitrary: st) (simp_all add: user_message_def)

lemma resolved_rows_all:
  "\<forall>m\<in>set ms. resolve env st (meetingCode m) \<noteq> None \<Longrightarrow>
   resolved_rows env st ms = map (\<lambda>m. to_row m (the (resolve env st (meetingCode m)))) ms"
  by (induction ms) auto

text \<open>
  Claim C5. Let \<open>N\<close> \<open>user-message\<close> events be handled from a state with an empty buffer,
  every room code of theirs resolving to a durable id, and let the flush run. For
  \<open>N \<ge> 1\<close> the flush hands exactly one batch to the database; the batch has one row per
  event, in the order of the events, and each row has the sender, the display name, the
  text, the creation instant and the generated id of its event. The buffer is empty
  afterwards. (For \<open>N = 0\<close> the flush returns at once and there is no batch.)
\<close>

theorem flush_round_trip:
  assumes "messageBuffer st = []"
    and "\<forall>e\<in>set evs. resolve env st (roomId (ce_msg e)) \<noteq> None"
  shows "(let st1 = enqueue_all evs st;
              tr = snd (flushMessages env st1);
              rows = map (\<lambda>e. to_row (buffered (ce_sid e) (ce_msg e) (ce_t2 e) (ce_uuid e))
                                 (the (resolve env st (roomId (ce_msg e))))) evs
          in db_inserts tr = (if evs = [] then [] else [rows])
           \<and> length rows = length evs
           \<and> map row_senderId rows = map ce_sid evs
           \<and> map row_senderName rows =
               map (\<lambda>e. or_default (senderName (ce_msg e)) ''Anonymous'') evs
           \<and> map row_content rows = map (\<lambda>e. msg_text (ce_msg e)) evs
           \<and> map row_createdAt rows = map ce_t2 evs
           \<and> map row_id rows = map ce_uuid evs
           \<and> messageBuffer (fst (flushMessages env st1)) = [])"
proof -
  let ?st1 = "enqueue_all evs st"
  let ?ms = "map (\<lambda>e. buffered (ce_sid e) (ce_msg e) (ce_t2 e) (ce_uuid e)) evs"
  have buf: "messageBuffer ?st1 = ?ms"
    using enqueue_all_buffer[of evs st] assms(1) by simp
  have res: "\<And>c. resolve env ?st1 c = resolve env st c"
    by (rule resolve_cong) (simp add: enqueue_all_buffer)
  have all: "\<forall>m\<in>set ?ms. resolve env st (meetingCode m) \<noteq> None"
    using assms(2) by (simp add: buffered_def)
  have "resolved_rows env ?st1 ?ms = resolved_rows env st ?ms"
    using res by (rule resolved_rows_cong)
  also have "\<dots> = map (\<lambda>m. to_row m (the (resolve env st (meetingCode m)))) ?ms"
    using all by (rule resolved_rows_all)
  finally have rows: "resolved_rows env ?st1 (messageBuffer ?st1) =
      map (\<lambda>e. to_row (buffered (ce_sid e) (ce_msg e) (ce_t2 e) (ce_uuid e))
                                 (the (resolve env st (roomId (ce_msg e))))) evs"
    by (simp add: buf comp_def buffered_def)
  from flushMessages_spec[of env ?st1] rows show ?thesis
    by (simp add: Let_def comp_def to_row_def buffered_def)
qed

text \<open>Two messages for room \<open>abc\<close>, then a flush.\<close>

theorem flush_round_trip_witness:
  "messageBuffer st_creator = []
   \<and> resolve env0 st_creator (roomId (ce_msg ev1)) = Some ''m1''
   \<and> resolve env0 st_creator (roomId (ce_msg ev3)) = Some ''m1''
   \<and> db_inserts (snd (flushMessages env0 (enqueue_all [ev1, ev3] st_creator))) =
       [[\<lparr> row_id = ''u1'', meetingId = ''m1'', row_senderId = ''s1'',
           row_senderName = ''Anonymous'', row_content = ''hello'', row_createdAt = 6 \<rparr>,
         \<lparr> row_id = ''u3'', meetingId = ''m1'', row_senderId = ''s2'',
           row_senderName = ''Bob'', row_content = ''later'', row_createdAt = 10 \<rparr>]]
   \<and> messageBuffer (fst (flushMessages env0 (enqueue_all [ev1, ev3] st_creator))) = []"
proof -
  have h1: "messageBuffer st_creator = []" by (rule st_creator_idle)
  have c: "roomId (ce_msg ev1) = ''abc''" "roomId (ce_msg ev3) = ''abc''"
    by (simp_all add: ev1_def ev3_def chat1_def chat3_def)
  have h2: "\<forall>e\<in>set [ev1, ev3]. resolve env0 st_creator (roomId (ce_msg e)) \<noteq> None"
    by (simp add: c resolve_scenarios)
  from flush_round_trip[OF h1 h2] h1 show ?thesis
    by (simp add: Let_def c resolve_scenarios)
       (simp add: ev1_def ev3_def chat1_def chat3_def to_row_def buffered_def or_default_def)
qed

subsection \<open>Messages that arrive during a flush\<close>

lemma run_sched_idle:
  "fst (snd (run_sched env ss st None)) = None
   \<and> db_inserts (snd (snd (run_sched env ss st None))) = []
   \<and> messageBuffer (fst (run_sched env ss st None)) = messageBuffer st @ enqueued ss"
proof (induction ss arbitrary: st)
  case Nil
  then show ?case by simp
next
  case (Cons s ss)
  show ?case
  proof (cases s)
    case Resume
    with Cons.IH[of st] show ?thesis by simp
  next
    case (Enqueue sid msg t1 t2 uuid)
    with Cons.IH[of "fst (user_message sid msg t1 t2 uuid st)"] show ?thesis
      by (simp add: split_beta) (simp add: user_message_def)
  qed
qed


lemma flush_resume_cons:
  assumes "fl_rest f = m # ms"
  shows "\<exists>st1 f' tr1. flush_resume env f st = (st1, Some f', tr1) \<and> fl_rest f' = ms
           \<and> fl_valid f' @ resolved_rows env st1 ms = fl_valid f @ resolved_rows env st (m # ms)
           \<and> messageBuffer st1 = messageBuffer st \<and> db_inserts tr1 = []"
proof -
  obtain r st1 tr1 where g: "getMeetingId env (meetingCode m) st = (r, st1, tr1)"
    by (cases "getMeetingId env (meetingCode m) st") auto
  have st1: "st1 = fst (snd (getMeetingId env (meetingCode m) st))" using g by simp
  have res: "\<And>c. resolve env st1 c = resolve env st c"
    unfolding st1 by (rule resolve_after_getMeetingId)
  have buf: "messageBuffer st1 = messageBuffer st"
    unfolding st1 by (rule getMeetingId_buffer)
  have obs: "db_inserts tr1 = []"
    using getMeetingId_no_obs(1)[of env "meetingCode m" st] g by simp
  have rr: "resolved_rows env st1 ms = resolved_rows env st ms"
    using res by (rule resolved_rows_cong)
  have rm: "resolve env st (meetingCode m) =
      (case r of None \<Rightarrow> None | Some mid \<Rightarrow> if mid = [] then None else Some mid)"
    using g by (simp add: resolve_def)
  show ?thesis
  proof (cases r)
    case None
    with assms g rm rr buf obs show ?thesis
      by (simp add: flush_resume_def db_inserts_append)
  next
    case (Some mid)
    with assms g rm rr buf obs show ?thesis
      by (cases "mid = []") (simp_all add: flush_resume_def db_inserts_append)
  qed
qed

lemma run_sched_flight:
  "messageBuffer (fst (run_sched env ss st (Some f))) = messageBuffer st @ enqueued ss
   \<and> db_inserts (snd (snd (run_sched env ss st (Some f)))) =
       (if length (fl_rest f) < resumes ss
        then db_inserts (flush_insert env (fl_valid f @ resolved_rows env st (fl_rest f)))
        else [])
   \<and> (fst (snd (run_sched env ss st (Some f))) = None \<longleftrightarrow> length (fl_rest f) < resumes ss)"
proof (induction ss arbitrary: st f)
  case Nil
  then show ?case by simp
next
  case (Cons s ss)
  show ?case
  proof (cases s)
    case Resume
    show ?thesis
    proof (cases "fl_rest f")
      case Nil
      with Resume run_sched_idle[of env ss st] show ?thesis
        by (simp add: flush_resume_def split_beta db_inserts_append)
    next
      case (Cons m ms)
      from flush_resume_cons[OF Cons, of env st] obtain st1 f' tr1 where
        r: "flush_resume env f st = (st1, Some f', tr1)" and f': "fl_rest f' = ms"
        and v: "fl_valid f' @ resolved_rows env st1 ms = fl_valid f @ resolved_rows env st (m # ms)"
        and b: "messageBuffer st1 = messageBuffer st" and d: "db_inserts tr1 = []"
        by blast
      from Cons.IH[of st1 f'] Resume Cons r f' v b d show ?thesis
        by (simp add: split_beta db_inserts_append)
    qed
  next
    case (Enqueue sid msg t1 t2 uuid)
    let ?st1 = "fst (user_message sid msg t1 t2 uuid st)"
    have rr: "resolved_rows env ?st1 (fl_rest f) = resolved_rows env st (fl_rest f)"
      by (rule resolved_rows_cong, rule resolve_cong) (simp add: user_message_def)
    have b: "messageBuffer ?st1 = messageBuffer st @ [buffered sid msg t2 uuid]"
      by (simp add: user_message_def)
    have d: "db_inserts (snd (user_message sid msg t1 t2 uuid st)) = []"
      by (simp add: user_message_def)
    from Cons.IH[of ?st1 f] Enqueue rr b d show ?thesis
      by (simp add: split_beta db_inserts_append)
  qed
qed

text \<open>
  Claim C6. A flush that finds messages pending empties the buffer and keeps its own copy
  before its first await, and before any insert. Whatever \<open>user-message\<close> events are
  handled between its awaits, in whatever order: the buffer afterwards holds exactly the
  records of those events, in order (none lost, none consumed); the flush, once it has
  resumed often enough to finish, has handed to the database exactly the batch it would
  have handed over with no event in between, the rows of the copied messages that resolve;
  and the next flush starts with exactly the records that arrived meanwhile.
\<close>

theorem flush_swap_isolation:
  assumes "messageBuffer st \<noteq> []"
  shows "(let st0 = fst (flush_start st);
              fl0 = fst (snd (flush_start st));
              run = run_sched env ss st0 fl0
          in messageBuffer st0 = []
           \<and> fl0 = Some \<lparr> fl_rest = messageBuffer st, fl_valid = [] \<rparr>
           \<and> db_inserts (snd (snd (flush_start st))) = []
           \<and> messageBuffer (fst run) = enqueued ss
           \<and> (fst (snd run) = None \<longleftrightarrow> length (messageBuffer st) < resumes ss)
           \<and> db_inserts (snd (snd run)) =
               (if length (messageBuffer st) < resumes ss
                then db_inserts (snd (flushMessages env st)) else [])
           \<and> concat (db_inserts (snd (flushMessages env st)))
               = resolved_rows env st (messageBuffer st)
           \<and> fst (snd (flush_start (fst run))) =
               (if enqueued ss = [] then None
                else Some \<lparr> fl_rest = enqueued ss, fl_valid = [] \<rparr>))"
proof -
  let ?st0 = "st\<lparr> messageBuffer := [] \<rparr>"
  let ?f = "\<lparr> fl_rest = messageBuffer st, fl_valid = [] \<rparr>"
  have s: "flush_start st = (?st0, Some ?f, [Log (LogFlushing (length (messageBuffer st)))])"
    using assms by (simp add: flush_start_def)
  have rr: "resolved_rows env ?st0 (messageBuffer st) = resolved_rows env st (messageBuffer st)"
    by (rule resolved_rows_cong) (rule resolve_clear_buffer)
  note R = run_sched_flight[of env ss ?st0 ?f]
  note F = flushMessages_spec[of env st]
  have ins: "db_inserts (flush_insert env (resolved_rows env st (messageBuffer st)))
               = db_inserts (snd (flushMessages env st))"
    using F by (simp add: flush_insert_obs)
  have nxt: "fst (snd (flush_start (fst (run_sched env ss ?st0 (Some ?f))))) =
               (if enqueued ss = [] then None
                else Some \<lparr> fl_rest = enqueued ss, fl_valid = [] \<rparr>)"
    using R by (simp add: flush_start_def)
  from s R rr ins nxt F show ?thesis
    by (simp add: Let_def)
qed


text \<open>
  The flush of the two pending messages, with a third message handled while the flush waits:
  the third message is the whole buffer afterwards and is in no batch.
\<close>

theorem flush_swap_isolation_witness:
  "messageBuffer st_chat \<noteq> []
   \<and> messageBuffer (fst (run_sched env0 sched0 (fst (flush_start st_chat))
                           (fst (snd (flush_start st_chat))))) =
       [\<lparr> bm_id = ''u3'', meetingCode = ''abc'', bm_senderId = ''s2'',
          bm_senderName = ''Bob'', bm_content = ''later'', bm_createdAt = 10 \<rparr>]
   \<and> db_inserts (snd (snd (run_sched env0 sched0 (fst (flush_start st_chat))
                           (fst (snd (flush_start st_chat)))))) =
       [[\<lparr> row_id = ''u1'', meetingId = ''m1'', row_senderId = ''s1'',
           row_senderName = ''Anonymous'', row_content = ''hello'', row_createdAt = 6 \<rparr>]]"
proof -
  have h: "messageBuffer st_chat \<noteq> []" by (simp add: st_chat_pending)
  have e: "enqueued sched0 =
       [\<lparr> bm_id = ''u3'', meetingCode = ''abc'', bm_senderId = ''s2'',
          bm_senderName = ''Bob'', bm_content = ''later'', bm_createdAt = 10 \<rparr>]"
    by (simp add: sched0_def buffered_def chat3_def or_default_def)
  have n: "length (messageBuffer st_chat) < resumes sched0"
    by (simp add: st_chat_pending sched0_def)
  have r: "resolved_rows env0 st_chat (messageBuffer st_chat) =
     [\<lparr> row_id = ''u1'', meetingId = ''m1'', row_senderId = ''s1'',
        row_senderName = ''Anonymous'', row_content = ''hello'', row_createdAt = 6 \<rparr>]"
    by (simp add: st_chat_pending resolve_scenarios to_row_def)
  have d: "db_inserts (snd (flushMessages env0 st_chat)) =
     [[\<lparr> row_id = ''u1'', meetingId = ''m1'', row_senderId = ''s1'',
        row_senderName = ''Anonymous'', row_content = ''hello'', row_createdAt = 6 \<rparr>]]"
    using flushMessages_spec[of env0 st_chat] r by simp
  let ?run = "run_sched env0 sched0 (fst (flush_start st_chat)) (fst (snd (flush_start st_chat)))"
  from flush_swap_isolation[OF h, of env0 sched0]
  have a: "messageBuffer (fst ?run) = enqueued sched0"
    and b: "db_inserts (snd (snd ?run)) =
              (if length (messageBuffer st_chat) < resumes sched0
               then db_inserts (snd (flushMessages env0 st_chat)) else [])"
    unfolding Let_def by blast+
  from a e have a': "messageBuffer (fst ?run) =
       [\<lparr> bm_id = ''u3'', meetingCode = ''abc'', bm_senderId = ''s2'',
          bm_senderName = ''Bob'', bm_content = ''later'', bm_createdAt = 10 \<rparr>]"
    by (rule trans)
  from b n have "db_inserts (snd (snd ?run)) = db_inserts (snd (flushMessages env0 st_chat))"
    by (simp only: if_True)
  then have b': "db_inserts (snd (snd ?run)) =
     [[\<lparr> row_id = ''u1'', meetingId = ''m1'', row_senderId = ''s1'',
        row_senderName = ''Anonymous'', row_content = ''hello'', row_createdAt = 6 \<rparr>]]"
    using d by (rule trans)
  from h a' b' show ?thesis by blast
qed

subsection \<open>The steps of a flush and the flush as a whole\<close>

text \<open>
  With no event in between, the flush in steps is \<open>flushMessages\<close>: same state, same
  trace.
\<close>

lemma run_sched_resumes:
  "run_sched env (replicate (Suc (length (fl_rest f))) Resume) st (Some f) =
     (fst (flush_loop env (fl_rest f) st (fl_valid f)), None,
      snd (snd (flush_loop env (fl_rest f) st (fl_valid f)))
        @ flush_insert env (fst (snd (flush_loop env (fl_rest f) st (fl_valid f)))))"
proof (induction "fl_rest f" arbitrary: f st)
  case Nil
  then show ?case by (simp add: flush_resume_def)
next
  case (Cons m ms)
  have c: "fl_rest f = m # ms" using Cons.hyps(2) by simp
  obtain r st1 tr1 where g: "getMeetingId env (meetingCode m) st = (r, st1, tr1)"
    by (cases "getMeetingId env (meetingCode m) st") auto
  show ?case
  proof (cases r)
    case None
    with Cons.hyps(1)[of "\<lparr> fl_rest = ms, fl_valid = fl_valid f \<rparr>" st1] c g show ?thesis
      by (simp add: flush_resume_def split_beta)
  next
    case (Some mid)
    show ?thesis
    proof (cases "mid = []")
      case True
      with Some Cons.hyps(1)[of "\<lparr> fl_rest = ms, fl_valid = fl_valid f \<rparr>" st1] c g show ?thesis
        by (simp add: flush_resume_def split_beta)
    next
      case False
      with Some Cons.hyps(1)[of "\<lparr> fl_rest = ms, fl_valid = fl_valid f @ [to_row m mid] \<rparr>" st1] c g
      show ?thesis
        by (simp add: flush_resume_def split_beta)
    qed
  qed
qed

lemma flush_steps_agree:
  assumes "messageBuffer st \<noteq> []"
  shows "flushMessages env st =
     (fst (run_sched env (replicate (Suc (length (messageBuffer st))) Resume)
             (fst (flush_start st)) (fst (snd (flush_start st)))),
      snd (snd (flush_start st))
        @ snd (snd (run_sched env (replicate (Suc (length (messageBuffer st))) Resume)
             (fst (flush_start st)) (fst (snd (flush_start st))))))"
  using assms
    run_sched_resumes[of env "\<lparr> fl_rest = messageBuffer st, fl_valid = [] \<rparr>"
      "st\<lparr> messageBuffer := [] \<rparr>"]
  by (simp add: flushMessages_def flush_start_def Let_def split_beta)

end
